theory Spec2Isabelle
  imports Complex_Main
begin

section \<open>The virtual-page row model (virtualPageRowModel.ts)\<close>

text \<open>
  The class \<open>VirtualPageRowModel\<close> sits between the grid and a \<open>VirtualPageCache\<close>:
  it owns at most one cache, replaces it on every reset, and forwards the row queries to
  it. Its collaborators (the grid options wrapper, the filter manager, the sort
  controller, the selection controller, the event service, the bean context, the cache
  class itself and \<open>Utils\<close>) are other files of the grid. What the row model reads
  from them is a field of the state below; what it calls on them is an entry of the
  call trace; the members of the cache class are a parameter of every function that
  reaches them.
\<close>

subsection \<open>Values\<close>

text \<open>
  What an expression of TypeScript type \<open>number\<close> holds at run time in this code
  base: \<open>undefined\<close> or \<open>null\<close> for an option that is not set, \<open>NaN\<close>, an
  infinity, or a finite double. A finite double is a real number; the row model only
  compares such a value with the literal 1 and copies it.
\<close>

datatype js_number = Undefined | Null | NaN | PosInfinity | NegInfinity | Number real

text \<open>
  The comparison \<open>x >= k\<close> of JavaScript for a finite literal \<open>k\<close>: the left operand
  is converted with ToNumber (\<open>undefined\<close> becomes \<open>NaN\<close>, \<open>null\<close> becomes 0), and
  every comparison with \<open>NaN\<close> is false.
\<close>

fun js_ge :: "js_number \<Rightarrow> real \<Rightarrow> bool" where
  "js_ge Undefined k = False"
| "js_ge Null k = (0 \<ge> k)"
| "js_ge NaN k = False"
| "js_ge PosInfinity k = True"
| "js_ge NegInfinity k = False"
| "js_ge (Number r) k = (r \<ge> k)"

text \<open>
  An object reference that may be absent is an \<open>option\<close>: \<open>None\<close> stands for
  \<open>undefined\<close> and for \<open>null\<close>, which no test of this file tells apart.
  \<open>Utils.exists\<close> and \<open>Utils.missing\<close> are not among the sources: a value is
  missing when it is \<open>undefined\<close> or \<open>null\<close>. \<open>truthy\<close> is the test of
  \<open>if (datasource)\<close> and \<open>if (this.virtualPageCache)\<close>: an object is truthy,
  \<open>undefined\<close> and \<open>null\<close> are not.
\<close>

definition missing :: "'a option \<Rightarrow> bool" where
  "missing v = (case v of None \<Rightarrow> True | Some x \<Rightarrow> False)"

definition exists :: "'a option \<Rightarrow> bool" where
  "exists v = (\<not> missing v)"

definition truthy :: "'a option \<Rightarrow> bool" where
  "truthy v = (case v of None \<Rightarrow> False | Some x \<Rightarrow> True)"

fun exists_number :: "js_number \<Rightarrow> bool" where
  "exists_number Undefined = False"
| "exists_number Null = False"
| "exists_number v = True"

subsection \<open>The datasource and the cache parameters\<close>

text \<open>
  \<open>IDataSource\<close>, read as \<open>any\<close> by \<open>checkForDeprecated\<close>: the four deprecated fields
  and the rest of the object (\<open>getRows\<close> and whatever else the application put there),
  which the row model never looks into.
\<close>

record 'o datasource =
  ds_maxConcurrentRequests :: js_number
  ds_maxPagesInCache :: js_number
  ds_overflowSize :: js_number
  ds_pageSize :: js_number
  ds_rest :: 'o

text \<open>
  \<open>new NumberSequence()\<close>: the class is not among the sources; the constructor is
  called without arguments, so every new sequence starts in the same state.
\<close>

datatype number_sequence = NewNumberSequence

text \<open>\<open>CacheParams\<close>, with the fields of the object literal in \<open>resetCache\<close>.\<close>

record 'o cache_params =
  datasource :: "'o datasource option"
  filterModel :: 'o
  sortModel :: 'o
  maxConcurrentDatasourceRequests :: js_number
  paginationOverflowSize :: js_number
  paginationInitialRowCount :: js_number
  maxPagesInCache :: js_number
  pageSize :: js_number
  rowHeight :: js_number
  lastAccessedSequence :: number_sequence

subsection \<open>Collaborators\<close>

text \<open>
  \<open>GridOptionsWrapper\<close> is not among the sources: one field for each getter the row
  model calls, holding what the getter returns at that moment.
\<close>

record 'o grid_options_wrapper =
  isEnableServerSideFilter :: bool
  isEnableServerSideSorting :: bool
  getRowNodeIdFunc :: "'o option"
  getMaxConcurrentDatasourceRequests :: js_number
  getPaginationOverflowSize :: js_number
  getPaginationInitialRowCount :: js_number
  getMaxPagesInCache :: js_number
  getPaginationPageSize :: js_number
  getRowHeightAsNumber :: js_number

datatype event = EVENT_MODEL_UPDATED | EVENT_FILTER_CHANGED | EVENT_SORT_CHANGED

text \<open>
  The calls the row model makes whose effect lies outside it, in the order it makes
  them: \<open>destroy()\<close> on the cache it is about to drop, \<open>context.wireBean\<close> on the
  cache it has just stored, \<open>eventService.dispatchEvent\<close>, and console output.
\<close>

datatype 'c call =
    VirtualPageCache_destroy 'c
  | Context_wireBean 'c
  | EventService_dispatchEvent event
  | Console_error string
  | Console_log string

text \<open>
  The class \<open>VirtualPageCache\<close> and \<open>Context.wireBean\<close> are not among the sources.
  \<open>'c\<close> is the state of a cache object. The constructor receives the cache parameters
  and nothing else; \<open>wireBean\<close> and every query may change the cache object they are
  called on. \<open>forEachNode\<close> yields the arguments of the successive calls of its
  callback.
\<close>

record ('o, 'c) cache_class =
  new_VirtualPageCache :: "'o cache_params \<Rightarrow> 'c"
  wireBean :: "'c \<Rightarrow> 'c"
  cache_getRow :: "'c \<Rightarrow> js_number \<Rightarrow> 'o option \<times> 'c"
  cache_forEachNode :: "'c \<Rightarrow> ('o \<times> js_number) list \<times> 'c"
  cache_getRowCombinedHeight :: "'c \<Rightarrow> js_number \<times> 'c"
  cache_getRowIndexAtPixel :: "'c \<Rightarrow> js_number \<Rightarrow> js_number \<times> 'c"
  cache_getRowCount :: "'c \<Rightarrow> js_number \<times> 'c"

subsection \<open>State\<close>

text \<open>
  The two private fields of the row model, what its collaborators hold when it asks
  them (the grid options, the filter model, the sort model, the selected nodes), and
  the trace of its outgoing calls.
\<close>

record ('o, 'c) row_model =
  this_datasource :: "'o datasource option"
  this_virtualPageCache :: "'c option"
  gridOptionsWrapper :: "'o grid_options_wrapper"
  filterManager_getFilterModel :: 'o
  sortController_getSortModel :: 'o
  selectionController_selectedNodes :: "'o list"
  trace :: "'c call list"

definition emit :: "'c call \<Rightarrow> ('o, 'c) row_model \<Rightarrow> ('o, 'c) row_model" where
  "emit c s = s\<lparr>trace := trace s @ [c]\<rparr>"

text \<open>
  Modelled from the spec: \<open>SelectionController.reset\<close> is not among the sources; the
  selection state is cleared.
\<close>

definition selectionController_reset :: "('o, 'c) row_model \<Rightarrow> ('o, 'c) row_model" where
  "selectionController_reset s = s\<lparr>selectionController_selectedNodes := []\<rparr>"

datatype error = TypeError

subsection \<open>Operations\<close>

text \<open>
  \<open>checkForDeprecated\<close> reads fields of \<open>this.datasource\<close>; on a missing datasource
  the property access throws.
\<close>

definition checkForDeprecated :: "('o, 'c) row_model \<Rightarrow> error + ('o, 'c) row_model" where
  "checkForDeprecated s =
     (case this_datasource s of
        None \<Rightarrow> Inl TypeError
      | Some ds \<Rightarrow>
          (let s1 = (if exists_number (ds_maxConcurrentRequests ds)
                     then emit (Console_error ''ag-Grid: since version 5.1.x, maxConcurrentRequests is replaced with grid property maxConcurrentDatasourceRequests'') s
                     else s);
               s2 = (if exists_number (ds_maxPagesInCache ds)
                     then emit (Console_error ''ag-Grid: since version 5.1.x, maxPagesInCache is replaced with grid property maxPagesInPaginationCache'') s1
                     else s1);
               s3 = (if exists_number (ds_overflowSize ds)
                     then emit (Console_error ''ag-Grid: since version 5.1.x, overflowSize is replaced with grid property paginationOverflowSize'') s2
                     else s2);
               s4 = (if exists_number (ds_pageSize ds)
                     then emit (Console_error ''ag-Grid: since version 5.1.x, pageSize is replaced with grid property paginationPageSize'') s3
                     else s3)
           in Inr s4))"

text \<open>The object literal of \<open>resetCache\<close>: the snapshot as read from the collaborators.\<close>

definition cacheSettings_literal :: "('o, 'c) row_model \<Rightarrow> 'o cache_params" where
  "cacheSettings_literal s =
     \<lparr> datasource = this_datasource s,
       filterModel = filterManager_getFilterModel s,
       sortModel = sortController_getSortModel s,
       maxConcurrentDatasourceRequests = getMaxConcurrentDatasourceRequests (gridOptionsWrapper s),
       paginationOverflowSize = getPaginationOverflowSize (gridOptionsWrapper s),
       paginationInitialRowCount = getPaginationInitialRowCount (gridOptionsWrapper s),
       maxPagesInCache = getMaxPagesInCache (gridOptionsWrapper s),
       pageSize = getPaginationPageSize (gridOptionsWrapper s),
       rowHeight = getRowHeightAsNumber (gridOptionsWrapper s),
       lastAccessedSequence = NewNumberSequence \<rparr>"

text \<open>The four assignments under \<open>// set defaults\<close>, in the order of the source.\<close>

definition set_defaults :: "'o cache_params \<Rightarrow> 'o cache_params" where
  "set_defaults cacheSettings =
     (let c1 = (if \<not> js_ge (maxConcurrentDatasourceRequests cacheSettings) 1
                then cacheSettings\<lparr>maxConcurrentDatasourceRequests := Number 2\<rparr>
                else cacheSettings);
          c2 = (if \<not> js_ge (pageSize c1) 1 then c1\<lparr>pageSize := Number 100\<rparr> else c1);
          c3 = (if \<not> js_ge (paginationInitialRowCount c2) 1
                then c2\<lparr>paginationInitialRowCount := Number 0\<rparr>
                else c2);
          c4 = (if \<not> js_ge (paginationOverflowSize c3) 1
                then c3\<lparr>paginationOverflowSize := Number 1\<rparr>
                else c3)
      in c4)"

text \<open>The settings \<open>resetCache\<close> hands to the constructor of the cache.\<close>

definition cacheSettings :: "('o, 'c) row_model \<Rightarrow> 'o cache_params" where
  "cacheSettings s = set_defaults (cacheSettings_literal s)"

definition resetCache :: "('o, 'c) cache_class \<Rightarrow> ('o, 'c) row_model \<Rightarrow> ('o, 'c) row_model" where
  "resetCache cls s =
     (let s1 = (case this_virtualPageCache s of
                  Some old \<Rightarrow> emit (VirtualPageCache_destroy old) s
                | None \<Rightarrow> s);
          cache = new_VirtualPageCache cls (cacheSettings s);
          s2 = s1\<lparr>this_virtualPageCache := Some cache\<rparr>
      in (emit (Context_wireBean cache) s2)\<lparr>this_virtualPageCache := Some (wireBean cls cache)\<rparr>)"

definition reset :: "('o, 'c) cache_class \<Rightarrow> ('o, 'c) row_model \<Rightarrow> ('o, 'c) row_model" where
  "reset cls s =
     (if missing (this_datasource s) then s
      else
        (let userGeneratingRows = exists (getRowNodeIdFunc (gridOptionsWrapper s));
             s1 = (if \<not> userGeneratingRows then selectionController_reset s else s);
             s2 = resetCache cls s1
         in emit (EventService_dispatchEvent EVENT_MODEL_UPDATED) s2))"

definition onFilterChanged :: "('o, 'c) cache_class \<Rightarrow> ('o, 'c) row_model \<Rightarrow> ('o, 'c) row_model" where
  "onFilterChanged cls s =
     (if isEnableServerSideFilter (gridOptionsWrapper s) then reset cls s else s)"

definition onSortChanged :: "('o, 'c) cache_class \<Rightarrow> ('o, 'c) row_model \<Rightarrow> ('o, 'c) row_model" where
  "onSortChanged cls s =
     (if isEnableServerSideSorting (gridOptionsWrapper s) then reset cls s else s)"

definition setDatasource ::
  "('o, 'c) cache_class \<Rightarrow> 'o datasource option \<Rightarrow> ('o, 'c) row_model \<Rightarrow> error + ('o, 'c) row_model" where
  "setDatasource cls ds s =
     (let s1 = s\<lparr>this_datasource := ds\<rparr>
      in if truthy ds
         then (case checkForDeprecated s1 of
                 Inl e \<Rightarrow> Inl e
               | Inr s2 \<Rightarrow> Inr (reset cls s2))
         else Inr s1)"

definition isEmpty :: "('o, 'c) row_model \<Rightarrow> bool" where
  "isEmpty s = missing (this_virtualPageCache s)"

definition isRowsToRender :: "('o, 'c) row_model \<Rightarrow> bool" where
  "isRowsToRender s = exists (this_virtualPageCache s)"

text \<open>
  The queries: each asks the cache when there is one and answers with a constant
  otherwise. \<open>None\<close> is the \<open>null\<close> row.
\<close>

definition getRow ::
  "('o, 'c) cache_class \<Rightarrow> js_number \<Rightarrow> ('o, 'c) row_model \<Rightarrow> 'o option \<times> ('o, 'c) row_model" where
  "getRow cls rowIndex s =
     (case this_virtualPageCache s of
        Some c \<Rightarrow> (let (r, c') = cache_getRow cls c rowIndex
                   in (r, s\<lparr>this_virtualPageCache := Some c'\<rparr>))
      | None \<Rightarrow> (None, s))"

definition forEachNode ::
  "('o, 'c) cache_class \<Rightarrow> ('o, 'c) row_model \<Rightarrow> ('o \<times> js_number) list \<times> ('o, 'c) row_model" where
  "forEachNode cls s =
     (case this_virtualPageCache s of
        Some c \<Rightarrow> (let (calls, c') = cache_forEachNode cls c
                   in (calls, s\<lparr>this_virtualPageCache := Some c'\<rparr>))
      | None \<Rightarrow> ([], s))"

definition getRowCombinedHeight ::
  "('o, 'c) cache_class \<Rightarrow> ('o, 'c) row_model \<Rightarrow> js_number \<times> ('o, 'c) row_model" where
  "getRowCombinedHeight cls s =
     (case this_virtualPageCache s of
        Some c \<Rightarrow> (let (h, c') = cache_getRowCombinedHeight cls c
                   in (h, s\<lparr>this_virtualPageCache := Some c'\<rparr>))
      | None \<Rightarrow> (Number 0, s))"

definition getRowIndexAtPixel ::
  "('o, 'c) cache_class \<Rightarrow> js_number \<Rightarrow> ('o, 'c) row_model \<Rightarrow> js_number \<times> ('o, 'c) row_model" where
  "getRowIndexAtPixel cls pixel s =
     (case this_virtualPageCache s of
        Some c \<Rightarrow> (let (i, c') = cache_getRowIndexAtPixel cls c pixel
                   in (i, s\<lparr>this_virtualPageCache := Some c'\<rparr>))
      | None \<Rightarrow> (Number (- 1), s))"

definition getRowCount ::
  "('o, 'c) cache_class \<Rightarrow> ('o, 'c) row_model \<Rightarrow> js_number \<times> ('o, 'c) row_model" where
  "getRowCount cls s =
     (case this_virtualPageCache s of
        Some c \<Rightarrow> (let (n, c') = cache_getRowCount cls c
                   in (n, s\<lparr>this_virtualPageCache := Some c'\<rparr>))
      | None \<Rightarrow> (Number 0, s))"

definition insertItemsAtIndex :: "js_number \<Rightarrow> 'o list \<Rightarrow> ('o, 'c) row_model \<Rightarrow> ('o, 'c) row_model" where
  "insertItemsAtIndex index items s = emit (Console_log ''not yet supported'') s"

definition removeItems :: "'o list \<Rightarrow> ('o, 'c) row_model \<Rightarrow> ('o, 'c) row_model" where
  "removeItems rowNodes s = emit (Console_log ''not yet supported'') s"

definition addItems :: "'o list \<Rightarrow> ('o, 'c) row_model \<Rightarrow> ('o, 'c) row_model" where
  "addItems items s = emit (Console_log ''not yet supported'') s"

subsection \<open>Sequences of operations\<close>

text \<open>
  What can happen to a row model once it is constructed: the application sets a
  datasource (\<open>init\<close> does so with the datasource of the grid options), the event
  service calls one of the two listeners registered by \<open>addEventListeners\<close>, the grid
  asks a query, the application calls one of the three update methods, or a collaborator
  changes what it holds (the grid options, the filter model, the sort model, the
  selection).
\<close>

datatype 'o action =
    SetDatasource "'o datasource option"
  | FilterChanged
  | SortChanged
  | GetRow js_number
  | ForEachNode
  | GetRowCombinedHeight
  | GetRowIndexAtPixel js_number
  | GetRowCount
  | InsertItemsAtIndex js_number "'o list"
  | RemoveItems "'o list"
  | AddItems "'o list"
  | SetGridOptions "'o grid_options_wrapper"
  | SetFilterModel 'o
  | SetSortModel 'o
  | SetSelectedNodes "'o list"

text \<open>
  One operation; the result of a query is dropped and the state it leaves is kept.
\<close>

fun step :: "('o, 'c) cache_class \<Rightarrow> 'o action \<Rightarrow> ('o, 'c) row_model \<Rightarrow> error + ('o, 'c) row_model" where
  "step cls (SetDatasource ds) s = setDatasource cls ds s"
| "step cls FilterChanged s = Inr (onFilterChanged cls s)"
| "step cls SortChanged s = Inr (onSortChanged cls s)"
| "step cls (GetRow rowIndex) s = Inr (snd (getRow cls rowIndex s))"
| "step cls ForEachNode s = Inr (snd (forEachNode cls s))"
| "step cls GetRowCombinedHeight s = Inr (snd (getRowCombinedHeight cls s))"
| "step cls (GetRowIndexAtPixel pixel) s = Inr (snd (getRowIndexAtPixel cls pixel s))"
| "step cls GetRowCount s = Inr (snd (getRowCount cls s))"
| "step cls (InsertItemsAtIndex index items) s = Inr (insertItemsAtIndex index items s)"
| "step cls (RemoveItems rowNodes) s = Inr (removeItems rowNodes s)"
| "step cls (AddItems items) s = Inr (addItems items s)"
| "step cls (SetGridOptions g) s = Inr (s\<lparr>gridOptionsWrapper := g\<rparr>)"
| "step cls (SetFilterModel f) s = Inr (s\<lparr>filterManager_getFilterModel := f\<rparr>)"
| "step cls (SetSortModel m) s = Inr (s\<lparr>sortController_getSortModel := m\<rparr>)"
| "step cls (SetSelectedNodes ns) s = Inr (s\<lparr>selectionController_selectedNodes := ns\<rparr>)"

text \<open>
  A sequence of operations stops at the first one that throws.
\<close>

fun run :: "('o, 'c) cache_class \<Rightarrow> 'o action list \<Rightarrow> ('o, 'c) row_model \<Rightarrow> error + ('o, 'c) row_model" where
  "run cls [] s = Inr s"
| "run cls (a # as) s = (case step cls a s of Inl e \<Rightarrow> Inl e | Inr s' \<Rightarrow> run cls as s')"

text \<open>
  \<open>sets_datasource\<close>: the operation hands the row model a datasource that is
  present. \<open>resets\<close>: the operation may reach \<open>reset\<close>.
\<close>

fun sets_datasource :: "'o action \<Rightarrow> bool" where
  "sets_datasource (SetDatasource ds) = truthy ds"
| "sets_datasource a = False"

fun resets :: "'o action \<Rightarrow> bool" where
  "resets (SetDatasource ds) = truthy ds"
| "resets FilterChanged = True"
| "resets SortChanged = True"
| "resets a = False"

fun is_destroy :: "'c call \<Rightarrow> bool" where
  "is_destroy (VirtualPageCache_destroy c) = True"
| "is_destroy c = False"

text \<open>
  What a query does to the cache object it is forwarded to; the other operations
  do not call the cache.
\<close>

fun query_cache :: "('o, 'c) cache_class \<Rightarrow> 'o action \<Rightarrow> 'c \<Rightarrow> 'c" where
  "query_cache cls (GetRow rowIndex) c = snd (cache_getRow cls c rowIndex)"
| "query_cache cls ForEachNode c = snd (cache_forEachNode cls c)"
| "query_cache cls GetRowCombinedHeight c = snd (cache_getRowCombinedHeight cls c)"
| "query_cache cls (GetRowIndexAtPixel pixel) c = snd (cache_getRowIndexAtPixel cls c pixel)"
| "query_cache cls GetRowCount c = snd (cache_getRowCount cls c)"
| "query_cache cls a c = c"

text \<open>
  The answers of all the queries in one state.
\<close>

definition answers ::
  "('o, 'c) cache_class \<Rightarrow> js_number \<Rightarrow> js_number \<Rightarrow> ('o, 'c) row_model \<Rightarrow>
   'o option \<times> js_number \<times> js_number \<times> js_number \<times> ('o \<times> js_number) list \<times> bool \<times> bool" where
  "answers cls rowIndex pixel s =
     (fst (getRow cls rowIndex s), fst (getRowCount cls s), fst (getRowCombinedHeight cls s),
      fst (getRowIndexAtPixel cls pixel s), fst (forEachNode cls s), isEmpty s, isRowsToRender s)"

subsection \<open>Concrete inputs\<close>

text \<open>
  A small cache class to evaluate the operations on: a cache object is the
  parameters it was constructed with and a flag that \<open>wireBean\<close> sets; it holds no
  rows and reports \<open>paginationInitialRowCount\<close> as its row count. Opaque values are
  natural numbers.
\<close>

definition example_cache_class :: "(nat, nat cache_params \<times> bool) cache_class" where
  "example_cache_class =
     \<lparr> new_VirtualPageCache = (\<lambda>p. (p, False)),
       wireBean = (\<lambda>c. (fst c, True)),
       cache_getRow = (\<lambda>c i. (None, c)),
       cache_forEachNode = (\<lambda>c. ([], c)),
       cache_getRowCombinedHeight = (\<lambda>c. (Number 0, c)),
       cache_getRowIndexAtPixel = (\<lambda>c p. (Number (- 1), c)),
       cache_getRowCount = (\<lambda>c. (paginationInitialRowCount (fst c), c)) \<rparr>"

text \<open>
  Grid options with server-side filtering on and server-side sorting off, no
  row-identity function, a page size that is not set, and out-of-range values for
  \<open>maxConcurrentDatasourceRequests\<close>, \<open>paginationInitialRowCount\<close> and
  \<open>maxPagesInCache\<close>.
\<close>

definition example_options :: "nat grid_options_wrapper" where
  "example_options =
     \<lparr> isEnableServerSideFilter = True,
       isEnableServerSideSorting = False,
       getRowNodeIdFunc = None,
       getMaxConcurrentDatasourceRequests = Number 0,
       getPaginationOverflowSize = Number 5,
       getPaginationInitialRowCount = NaN,
       getMaxPagesInCache = Number (- 5),
       getPaginationPageSize = Undefined,
       getRowHeightAsNumber = Number 25 \<rparr>"

definition example_datasource :: "nat datasource" where
  "example_datasource =
     \<lparr> ds_maxConcurrentRequests = Undefined, ds_maxPagesInCache = Undefined,
       ds_overflowSize = Undefined, ds_pageSize = Number 50, ds_rest = 0 \<rparr>"

text \<open>
  \<open>example_model\<close>: a row model as constructed (no datasource, no cache) next to
  a selection of one node. \<open>example_running\<close>: the same with a datasource and a live
  cache.
\<close>

definition example_model :: "(nat, nat cache_params \<times> bool) row_model" where
  "example_model =
     \<lparr> this_datasource = None,
       this_virtualPageCache = None,
       gridOptionsWrapper = example_options,
       filterManager_getFilterModel = 1,
       sortController_getSortModel = 2,
       selectionController_selectedNodes = [7],
       trace = [] \<rparr>"

definition example_running :: "(nat, nat cache_params \<times> bool) row_model" where
  "example_running =
     \<lparr> this_datasource = Some example_datasource,
       this_virtualPageCache = Some (cacheSettings example_model, True),
       gridOptionsWrapper = example_options,
       filterManager_getFilterModel = 1,
       sortController_getSortModel = 2,
       selectionController_selectedNodes = [7],
       trace = [] \<rparr>"

section \<open>Properties\<close>

lemma missing_iff: "missing v = (v = None)"
  by (simp add: missing_def split: option.split)

lemma exists_iff: "exists v = (v \<noteq> None)"
  by (simp add: exists_def missing_iff)

lemma truthy_iff: "truthy v = (v \<noteq> None)"
  by (simp add: truthy_def split: option.split)


subsection \<open>The settings and the cache after a reset\<close>

lemma set_defaults_fields:
  "maxConcurrentDatasourceRequests (set_defaults p) =
     (if js_ge (maxConcurrentDatasourceRequests p) 1 then maxConcurrentDatasourceRequests p else Number 2)"
  "pageSize (set_defaults p) = (if js_ge (pageSize p) 1 then pageSize p else Number 100)"
  "paginationInitialRowCount (set_defaults p) =
     (if js_ge (paginationInitialRowCount p) 1 then paginationInitialRowCount p else Number 0)"
  "paginationOverflowSize (set_defaults p) =
     (if js_ge (paginationOverflowSize p) 1 then paginationOverflowSize p else Number 1)"
  "maxPagesInCache (set_defaults p) = maxPagesInCache p"
  "rowHeight (set_defaults p) = rowHeight p"
  "datasource (set_defaults p) = datasource p"
  "filterModel (set_defaults p) = filterModel p"
  "sortModel (set_defaults p) = sortModel p"
  "lastAccessedSequence (set_defaults p) = lastAccessedSequence p"
  by (simp_all add: set_defaults_def Let_def)

lemma resetCache_cache:
  "this_virtualPageCache (resetCache cls s) =
     Some (wireBean cls (new_VirtualPageCache cls (cacheSettings s)))"
  by (simp add: resetCache_def Let_def emit_def split: option.split)

lemma cacheSettings_cong:
  assumes "this_datasource s' = this_datasource s"
    and "gridOptionsWrapper s' = gridOptionsWrapper s"
    and "filterManager_getFilterModel s' = filterManager_getFilterModel s"
    and "sortController_getSortModel s' = sortController_getSortModel s"
  shows "cacheSettings s' = cacheSettings s"
  using assms by (simp add: cacheSettings_def cacheSettings_literal_def)

lemma resetCache_trace:
  "trace (resetCache cls s) =
     trace s
     @ (case this_virtualPageCache s of Some old \<Rightarrow> [VirtualPageCache_destroy old] | None \<Rightarrow> [])
     @ [Context_wireBean (new_VirtualPageCache cls (cacheSettings s))]"
  by (simp add: resetCache_def Let_def emit_def split: option.split)

lemma reset_missing: "this_datasource s = None \<Longrightarrow> reset cls s = s"
  by (simp add: reset_def missing_iff)

lemma reset_fields:
  "this_datasource (reset cls s) = this_datasource s"
  "gridOptionsWrapper (reset cls s) = gridOptionsWrapper s"
  "filterManager_getFilterModel (reset cls s) = filterManager_getFilterModel s"
  "sortController_getSortModel (reset cls s) = sortController_getSortModel s"
  by (simp_all add: reset_def Let_def emit_def resetCache_def selectionController_reset_def
      split: option.split)

lemma reset_cache:
  assumes "this_datasource s = Some ds"
  shows "this_virtualPageCache (reset cls s) =
     Some (wireBean cls (new_VirtualPageCache cls (cacheSettings s)))"
proof -
  have "cacheSettings (selectionController_reset s) = cacheSettings s"
    by (rule cacheSettings_cong) (simp_all add: selectionController_reset_def)
  then show ?thesis
    using assms by (simp add: reset_def missing_iff Let_def emit_def resetCache_cache)
qed

lemma reset_trace:
  assumes "this_datasource s = Some ds"
  shows "trace (reset cls s) =
     trace s
     @ (case this_virtualPageCache s of Some old \<Rightarrow> [VirtualPageCache_destroy old] | None \<Rightarrow> [])
     @ [Context_wireBean (new_VirtualPageCache cls (cacheSettings s)),
        EventService_dispatchEvent EVENT_MODEL_UPDATED]"
proof -
  have "cacheSettings (selectionController_reset s) = cacheSettings s"
    by (rule cacheSettings_cong) (simp_all add: selectionController_reset_def)
  then show ?thesis
    using assms
    by (simp add: reset_def missing_iff Let_def emit_def resetCache_trace
        selectionController_reset_def)
qed

lemma reset_changes_state:
  assumes "this_datasource s = Some ds"
  shows "reset cls s \<noteq> s"
proof
  assume "reset cls s = s"
  then have "length (trace (reset cls s)) = length (trace s)" by simp
  then show False using reset_trace [OF assms, of cls] by (simp split: option.splits)
qed

lemma checkForDeprecated_fields:
  assumes "this_datasource s = Some ds"
  shows "\<exists>s'. checkForDeprecated s = Inr s'
    \<and> this_datasource s' = this_datasource s
    \<and> this_virtualPageCache s' = this_virtualPageCache s
    \<and> gridOptionsWrapper s' = gridOptionsWrapper s
    \<and> filterManager_getFilterModel s' = filterManager_getFilterModel s
    \<and> sortController_getSortModel s' = sortController_getSortModel s
    \<and> selectionController_selectedNodes s' = selectionController_selectedNodes s"
  using assms by (simp add: checkForDeprecated_def Let_def emit_def)

lemma setDatasource_total:
  "\<exists>s'. setDatasource cls d s = Inr s'"
proof (cases d)
  case None
  then show ?thesis by (simp add: setDatasource_def exists_iff missing_iff truthy_iff)
next
  case (Some ds)
  obtain s1 where "checkForDeprecated (s\<lparr>this_datasource := Some ds\<rparr>) = Inr s1"
    using checkForDeprecated_fields [of "s\<lparr>this_datasource := Some ds\<rparr>" ds] by auto
  with Some show ?thesis by (simp add: setDatasource_def exists_iff missing_iff truthy_iff)
qed

lemma setDatasource_fields:
  assumes "setDatasource cls (Some d) s = Inr s'"
  shows "this_datasource s' = Some d"
    and "gridOptionsWrapper s' = gridOptionsWrapper s"
    and "filterManager_getFilterModel s' = filterManager_getFilterModel s"
    and "sortController_getSortModel s' = sortController_getSortModel s"
proof -
  let ?s1 = "s\<lparr>this_datasource := Some d\<rparr>"
  obtain s2 where s2: "checkForDeprecated ?s1 = Inr s2"
    "this_datasource s2 = this_datasource ?s1"
    "gridOptionsWrapper s2 = gridOptionsWrapper ?s1"
    "filterManager_getFilterModel s2 = filterManager_getFilterModel ?s1"
    "sortController_getSortModel s2 = sortController_getSortModel ?s1"
    using checkForDeprecated_fields [of ?s1 d] by auto
  have "s' = reset cls s2"
    using assms s2(1) by (simp add: setDatasource_def exists_iff missing_iff truthy_iff)
  then show "this_datasource s' = Some d"
    and "gridOptionsWrapper s' = gridOptionsWrapper s"
    and "filterManager_getFilterModel s' = filterManager_getFilterModel s"
    and "sortController_getSortModel s' = sortController_getSortModel s"
    using s2 by (simp_all add: reset_fields)
qed

lemma setDatasource_cache:
  "setDatasource cls (Some d) s = Inr s' \<Longrightarrow>
   this_virtualPageCache s' =
     Some (wireBean cls (new_VirtualPageCache cls (cacheSettings (s\<lparr>this_datasource := Some d\<rparr>))))"
proof -
  assume a: "setDatasource cls (Some d) s = Inr s'"
  let ?s1 = "s\<lparr>this_datasource := Some d\<rparr>"
  obtain s2 where s2: "checkForDeprecated ?s1 = Inr s2"
    "this_datasource s2 = this_datasource ?s1"
    "gridOptionsWrapper s2 = gridOptionsWrapper ?s1"
    "filterManager_getFilterModel s2 = filterManager_getFilterModel ?s1"
    "sortController_getSortModel s2 = sortController_getSortModel ?s1"
    using checkForDeprecated_fields [of ?s1 d] by auto
  have "s' = reset cls s2"
    using a s2(1) by (simp add: setDatasource_def exists_iff missing_iff truthy_iff)
  moreover have "this_datasource s2 = Some d" using s2(2) by simp
  moreover have "cacheSettings s2 = cacheSettings ?s1"
    by (rule cacheSettings_cong) (rule s2)+
  ultimately show ?thesis by (simp add: reset_cache)
qed

text \<open>
  Claim C1. In the settings that \<open>resetCache\<close> hands to the constructor of the
  cache, \<open>pageSize\<close> is 100 whenever the grid option is not \<open>>= 1\<close>,
  \<open>maxConcurrentDatasourceRequests\<close> is 2, \<open>paginationOverflowSize\<close> is 1 and
  \<open>paginationInitialRowCount\<close> is 0 under the same test, and a grid option that
  passes the test is handed over as it is. The cache the row model holds afterwards is
  the one constructed from these settings.
\<close>
theorem resetCache_defaults:
  "pageSize (cacheSettings s) =
     (if js_ge (getPaginationPageSize (gridOptionsWrapper s)) 1
      then getPaginationPageSize (gridOptionsWrapper s) else Number 100)
   \<and> maxConcurrentDatasourceRequests (cacheSettings s) =
     (if js_ge (getMaxConcurrentDatasourceRequests (gridOptionsWrapper s)) 1
      then getMaxConcurrentDatasourceRequests (gridOptionsWrapper s) else Number 2)
   \<and> paginationOverflowSize (cacheSettings s) =
     (if js_ge (getPaginationOverflowSize (gridOptionsWrapper s)) 1
      then getPaginationOverflowSize (gridOptionsWrapper s) else Number 1)
   \<and> paginationInitialRowCount (cacheSettings s) =
     (if js_ge (getPaginationInitialRowCount (gridOptionsWrapper s)) 1
      then getPaginationInitialRowCount (gridOptionsWrapper s) else Number 0)
   \<and> this_virtualPageCache (resetCache cls s) =
     Some (wireBean cls (new_VirtualPageCache cls (cacheSettings s)))
   \<and> (this_datasource s = Some ds \<longrightarrow>
        this_virtualPageCache (reset cls s) =
          Some (wireBean cls (new_VirtualPageCache cls (cacheSettings s))))"
proof -
  have "pageSize (cacheSettings s) =
     (if js_ge (getPaginationPageSize (gridOptionsWrapper s)) 1
      then getPaginationPageSize (gridOptionsWrapper s) else Number 100)"
    and "maxConcurrentDatasourceRequests (cacheSettings s) =
     (if js_ge (getMaxConcurrentDatasourceRequests (gridOptionsWrapper s)) 1
      then getMaxConcurrentDatasourceRequests (gridOptionsWrapper s) else Number 2)"
    and "paginationOverflowSize (cacheSettings s) =
     (if js_ge (getPaginationOverflowSize (gridOptionsWrapper s)) 1
      then getPaginationOverflowSize (gridOptionsWrapper s) else Number 1)"
    and "paginationInitialRowCount (cacheSettings s) =
     (if js_ge (getPaginationInitialRowCount (gridOptionsWrapper s)) 1
      then getPaginationInitialRowCount (gridOptionsWrapper s) else Number 0)"
    by (simp_all add: cacheSettings_def set_defaults_fields cacheSettings_literal_def)
  then show ?thesis
    by (simp add: resetCache_cache reset_cache)
qed

theorem resetCache_defaults_witness:
  "pageSize (cacheSettings example_running) = Number 100
   \<and> maxConcurrentDatasourceRequests (cacheSettings example_running) = Number 2
   \<and> paginationOverflowSize (cacheSettings example_running) = Number 5
   \<and> paginationInitialRowCount (cacheSettings example_running) = Number 0
   \<and> this_virtualPageCache (reset example_cache_class example_running) =
       Some (cacheSettings example_running, True)"
proof -
  have d: "this_datasource example_running = Some example_datasource"
    and g: "gridOptionsWrapper example_running = example_options"
    by (simp_all add: example_running_def)
  from resetCache_defaults [where s = example_running and cls = example_cache_class
      and ds = example_datasource] d
  show ?thesis
    by (simp add: g example_options_def example_cache_class_def)
qed

text \<open>
  Claim C2, as amended. \<open>resetCache\<close> applies no default to \<open>maxPagesInCache\<close>:
  the settings carry the grid option exactly as supplied, so an option that is not set
  stays not set, and an option that is set but not \<open>>= 1\<close> reaches the cache
  unchanged. No failure is surfaced: \<open>setDatasource\<close> always returns.
\<close>
theorem maxPagesInCache_passed_through:
  "maxPagesInCache (cacheSettings s) = getMaxPagesInCache (gridOptionsWrapper s)
   \<and> this_virtualPageCache (resetCache cls s) =
       Some (wireBean cls (new_VirtualPageCache cls (cacheSettings s)))
   \<and> (\<exists>s'. setDatasource cls d s = Inr s')"
  by (simp add: cacheSettings_def set_defaults_fields cacheSettings_literal_def
      resetCache_cache [unfolded cacheSettings_def] setDatasource_total)

theorem maxPagesInCache_passed_through_witness:
  "maxPagesInCache (cacheSettings example_model) = Number (- 5)
   \<and> (\<exists>s'. setDatasource example_cache_class (Some example_datasource) example_model = Inr s')"
  using maxPagesInCache_passed_through [of example_model example_cache_class "Some example_datasource"]
  by (simp add: example_model_def example_options_def)

text \<open>
  The claim as first stated fails: with \<open>maxPagesInCache = -5\<close> in the grid
  options, the value is out of range and the settings still hold \<open>-5\<close>, a value
  that is set.
\<close>
theorem maxPagesInCache_defaulted_counterexample:
  "\<not> js_ge (getMaxPagesInCache (gridOptionsWrapper example_model)) 1
   \<and> exists_number (maxPagesInCache (cacheSettings example_model))
   \<and> maxPagesInCache (cacheSettings example_model) = Number (- 5)"
  by (simp add: example_model_def example_options_def cacheSettings_def set_defaults_def
      cacheSettings_literal_def Let_def)

subsection \<open>Without a datasource\<close>

lemma step_no_datasource:
  assumes "\<not> sets_datasource a"
    and "this_datasource s = None" and "this_virtualPageCache s = None"
  shows "\<exists>s'. step cls a s = Inr s' \<and> this_datasource s' = None \<and> this_virtualPageCache s' = None"
  using assms
  by (cases a)
    (simp_all add: setDatasource_def exists_iff missing_iff truthy_iff onFilterChanged_def onSortChanged_def
      reset_def getRow_def forEachNode_def getRowCombinedHeight_def getRowIndexAtPixel_def
      getRowCount_def insertItemsAtIndex_def removeItems_def addItems_def emit_def)

lemma run_no_datasource:
  assumes "\<forall>a \<in> set as. \<not> sets_datasource a"
    and "this_datasource s = None" and "this_virtualPageCache s = None"
  shows "\<exists>s'. run cls as s = Inr s' \<and> this_datasource s' = None \<and> this_virtualPageCache s' = None"
  using assms
proof (induction as arbitrary: s)
  case Nil
  then show ?case by simp
next
  case (Cons a as)
  from Cons.prems obtain s1 where s1: "step cls a s = Inr s1"
    "this_datasource s1 = None" "this_virtualPageCache s1 = None"
    using step_no_datasource [of a s cls] by auto
  from Cons.prems have "\<forall>b \<in> set as. \<not> sets_datasource b" by simp
  from Cons.IH [OF this s1(2) s1(3)] s1(1) show ?case by simp
qed

text \<open>
  Claim C3. Start from a row model with no datasource and no cache, and let any
  operations follow in which no datasource that is present is set. Then no operation
  throws, there is still no datasource and no cache, \<open>getRow\<close> returns \<open>null\<close> for
  every index, \<open>getRowCount\<close> and \<open>getRowCombinedHeight\<close> return 0,
  \<open>getRowIndexAtPixel\<close> returns -1 for every pixel, \<open>forEachNode\<close> calls its
  callback zero times, and \<open>reset\<close>, also when reached through a filter or sort
  change, leaves the whole state as it is.
\<close>
theorem no_datasource_noop:
  assumes "\<forall>a \<in> set as. \<not> sets_datasource a"
    and "this_datasource s0 = None" and "this_virtualPageCache s0 = None"
  shows "\<exists>s. run cls as s0 = Inr s
    \<and> this_datasource s = None \<and> this_virtualPageCache s = None
    \<and> getRow cls rowIndex s = (None, s)
    \<and> getRowCount cls s = (Number 0, s)
    \<and> getRowCombinedHeight cls s = (Number 0, s)
    \<and> getRowIndexAtPixel cls pixel s = (Number (- 1), s)
    \<and> forEachNode cls s = ([], s)
    \<and> reset cls s = s
    \<and> onFilterChanged cls s = s
    \<and> onSortChanged cls s = s"
proof -
  from run_no_datasource [OF assms] obtain s where s: "run cls as s0 = Inr s"
    "this_datasource s = None" "this_virtualPageCache s = None" by blast
  have "getRow cls rowIndex s = (None, s)" using s(3) by (simp add: getRow_def)
  moreover have "getRowCount cls s = (Number 0, s)" using s(3) by (simp add: getRowCount_def)
  moreover have "getRowCombinedHeight cls s = (Number 0, s)"
    using s(3) by (simp add: getRowCombinedHeight_def)
  moreover have "getRowIndexAtPixel cls pixel s = (Number (- 1), s)"
    using s(3) by (simp add: getRowIndexAtPixel_def)
  moreover have "forEachNode cls s = ([], s)" using s(3) by (simp add: forEachNode_def)
  moreover have r: "reset cls s = s" using s(2) by (simp add: reset_def missing_iff)
  moreover have "onFilterChanged cls s = s" using r by (simp add: onFilterChanged_def)
  moreover have "onSortChanged cls s = s" using r by (simp add: onSortChanged_def)
  ultimately show ?thesis using s by blast
qed

theorem no_datasource_noop_witness:
  "\<exists>s. run example_cache_class
          [FilterChanged, SetDatasource None, GetRow (Number 3), AddItems [4], SortChanged]
          example_model = Inr s
    \<and> this_datasource s = None \<and> this_virtualPageCache s = None
    \<and> getRow example_cache_class (Number 0) s = (None, s)
    \<and> getRowCount example_cache_class s = (Number 0, s)
    \<and> getRowCombinedHeight example_cache_class s = (Number 0, s)
    \<and> getRowIndexAtPixel example_cache_class (Number 120) s = (Number (- 1), s)
    \<and> forEachNode example_cache_class s = ([], s)
    \<and> reset example_cache_class s = s
    \<and> onFilterChanged example_cache_class s = s
    \<and> onSortChanged example_cache_class s = s"
proof -
  have a: "\<forall>a \<in> set [FilterChanged, SetDatasource None, GetRow (Number 3), AddItems [4::nat], SortChanged].
             \<not> sets_datasource a"
    by (simp add: exists_iff missing_iff truthy_iff)
  have b: "this_datasource example_model = None" by (simp add: example_model_def)
  have c: "this_virtualPageCache example_model = None" by (simp add: example_model_def)
  show ?thesis
    by (rule no_datasource_noop [OF a b c])
qed

subsection \<open>Reset with a datasource\<close>

lemma step_cache:
  assumes "step cls a s = Inr s'"
  shows "this_virtualPageCache s' = map_option (query_cache cls a) (this_virtualPageCache s)
     \<or> (\<exists>p. this_virtualPageCache s' = Some (wireBean cls (new_VirtualPageCache cls p)))"
proof (cases a)
  case (SetDatasource d)
  show ?thesis
  proof (cases d)
    case None
    with SetDatasource assms show ?thesis
      by (cases "this_virtualPageCache s") (auto simp: setDatasource_def exists_iff missing_iff truthy_iff)
  next
    case (Some ds)
    with SetDatasource assms setDatasource_cache [of cls ds s s'] show ?thesis by auto
  qed
next
  case FilterChanged
  show ?thesis
  proof (cases "isEnableServerSideFilter (gridOptionsWrapper s) \<and> this_datasource s \<noteq> None")
    case True
    with FilterChanged assms show ?thesis
      by (auto simp: onFilterChanged_def reset_cache)
  next
    case False
    with FilterChanged assms have "s' = s"
      by (auto simp: onFilterChanged_def reset_missing)
    with FilterChanged show ?thesis by (cases "this_virtualPageCache s") auto
  qed
next
  case SortChanged
  show ?thesis
  proof (cases "isEnableServerSideSorting (gridOptionsWrapper s) \<and> this_datasource s \<noteq> None")
    case True
    with SortChanged assms show ?thesis
      by (auto simp: onSortChanged_def reset_cache)
  next
    case False
    with SortChanged assms have "s' = s"
      by (auto simp: onSortChanged_def reset_missing)
    with SortChanged show ?thesis by (cases "this_virtualPageCache s") auto
  qed
next
  case (GetRow i)
  with assms show ?thesis
    by (auto simp: getRow_def split: option.splits prod.splits)
next
  case ForEachNode
  with assms show ?thesis
    by (auto simp: forEachNode_def split: option.splits prod.splits)
next
  case GetRowCombinedHeight
  with assms show ?thesis
    by (auto simp: getRowCombinedHeight_def split: option.splits prod.splits)
next
  case (GetRowIndexAtPixel px)
  with assms show ?thesis
    by (auto simp: getRowIndexAtPixel_def split: option.splits prod.splits)
next
  case GetRowCount
  with assms show ?thesis
    by (auto simp: getRowCount_def split: option.splits prod.splits)
qed (use assms in \<open>cases "this_virtualPageCache s";
      auto simp: insertItemsAtIndex_def removeItems_def addItems_def emit_def\<close>)+

text \<open>
  Claim C4. A reset with a datasource present leaves the row model with the cache
  newly constructed from the settings read at that moment, and wired; among the calls
  it makes there is \<open>destroy()\<close> on the old cache exactly when there was one; the new
  cache is the same whatever the old cache was (or whether there was one). No operation
  of the row model does anything else to the cache: after any operation the cache is
  the old one as the forwarded query left it, or a newly constructed one.
\<close>
theorem reset_replaces_cache:
  "(this_datasource s = Some ds \<longrightarrow>
      this_virtualPageCache (reset cls s) =
        Some (wireBean cls (new_VirtualPageCache cls (cacheSettings s)))
      \<and> filter is_destroy (drop (length (trace s)) (trace (reset cls s))) =
        (case this_virtualPageCache s of Some old \<Rightarrow> [VirtualPageCache_destroy old] | None \<Rightarrow> [])
      \<and> this_virtualPageCache (reset cls (s\<lparr>this_virtualPageCache := c0\<rparr>)) =
        this_virtualPageCache (reset cls s))
   \<and> (step cls a s = Inr s' \<longrightarrow>
      this_virtualPageCache s' = map_option (query_cache cls a) (this_virtualPageCache s)
      \<or> (\<exists>p. this_virtualPageCache s' = Some (wireBean cls (new_VirtualPageCache cls p))))"
proof -
  have "cacheSettings (s\<lparr>this_virtualPageCache := c0\<rparr>) = cacheSettings s"
    by (rule cacheSettings_cong) simp_all
  then show ?thesis
    using step_cache [of cls a s s']
    by (auto simp: reset_cache reset_trace split: option.split)
qed

theorem reset_replaces_cache_witness:
  "this_virtualPageCache (reset example_cache_class example_running) =
     Some (wireBean example_cache_class
       (new_VirtualPageCache example_cache_class (cacheSettings example_running)))
   \<and> filter is_destroy (drop (length (trace example_running))
        (trace (reset example_cache_class example_running))) =
       [VirtualPageCache_destroy (cacheSettings example_model, True)]
   \<and> this_virtualPageCache (reset example_cache_class (example_running\<lparr>this_virtualPageCache := None\<rparr>)) =
       this_virtualPageCache (reset example_cache_class example_running)
   \<and> step example_cache_class FilterChanged example_running =
       Inr (reset example_cache_class example_running)"
proof -
  have d: "this_datasource example_running = Some example_datasource"
    by (simp add: example_running_def)
  have f: "step example_cache_class FilterChanged example_running =
       Inr (reset example_cache_class example_running)"
    by (simp add: onFilterChanged_def example_running_def example_options_def)
  have v: "this_virtualPageCache example_running = Some (cacheSettings example_model, True)"
    by (simp add: example_running_def)
  from reset_replaces_cache [where s = example_running and ds = example_datasource
      and cls = example_cache_class and ?c0.0 = None and a = FilterChanged
      and s' = "reset example_cache_class example_running"] d f v
  show ?thesis by simp
qed

text \<open>
  Claim C5. A reset with a datasource present adds to the calls of the row model:
  \<open>destroy()\<close> on the old cache if there was one, \<open>wireBean\<close> on the new cache, and
  then, last, the dispatch of the model-updated event. So the event is dispatched
  exactly once, after the new cache is stored.
\<close>
theorem reset_dispatches_once:
  assumes "this_datasource s = Some ds"
  shows "trace (reset cls s) =
       trace s
       @ (case this_virtualPageCache s of Some old \<Rightarrow> [VirtualPageCache_destroy old] | None \<Rightarrow> [])
       @ [Context_wireBean (new_VirtualPageCache cls (cacheSettings s)),
          EventService_dispatchEvent EVENT_MODEL_UPDATED]
     \<and> count_list (drop (length (trace s)) (trace (reset cls s)))
         (EventService_dispatchEvent EVENT_MODEL_UPDATED) = 1
     \<and> this_virtualPageCache (reset cls s) =
         Some (wireBean cls (new_VirtualPageCache cls (cacheSettings s)))"
  using assms by (simp add: reset_trace reset_cache split: option.split)

theorem reset_dispatches_once_witness:
  "trace (reset example_cache_class example_running) =
     [VirtualPageCache_destroy (cacheSettings example_model, True),
      Context_wireBean (cacheSettings example_running, False),
      EventService_dispatchEvent EVENT_MODEL_UPDATED]
   \<and> count_list (trace (reset example_cache_class example_running))
       (EventService_dispatchEvent EVENT_MODEL_UPDATED) = 1"
proof -
  have d: "this_datasource example_running = Some example_datasource"
    by (simp add: example_running_def)
  have v: "this_virtualPageCache example_running = Some (cacheSettings example_model, True)"
    and t: "trace example_running = []"
    by (simp_all add: example_running_def)
  from reset_dispatches_once [OF d, of example_cache_class] v t
  show ?thesis by (simp add: example_cache_class_def)
qed

text \<open>
  Claim C6, as amended. On a reset with a datasource present, the selection is
  left as it is when the grid options supply a row-identity function, and is cleared
  when they do not. A reset without a datasource returns at once and leaves the
  selection as it is in both cases.
\<close>
theorem reset_selection:
  "(this_datasource s \<noteq> None \<longrightarrow>
      selectionController_selectedNodes (reset cls s) =
        (if exists (getRowNodeIdFunc (gridOptionsWrapper s))
         then selectionController_selectedNodes s else []))
   \<and> (this_datasource s = None \<longrightarrow>
      selectionController_selectedNodes (reset cls s) = selectionController_selectedNodes s)"
  by (simp add: reset_def missing_iff Let_def emit_def resetCache_def
      selectionController_reset_def split: option.split)

theorem reset_selection_witness:
  "selectionController_selectedNodes (reset example_cache_class example_running) = []
   \<and> selectionController_selectedNodes
       (reset example_cache_class
         (example_running\<lparr>gridOptionsWrapper := example_options\<lparr>getRowNodeIdFunc := Some 9\<rparr>\<rparr>)) = [7]
   \<and> selectionController_selectedNodes (reset example_cache_class example_model) = [7]"
  using reset_selection [of example_running example_cache_class]
    reset_selection [of "example_running\<lparr>gridOptionsWrapper := example_options\<lparr>getRowNodeIdFunc := Some 9\<rparr>\<rparr>"
      example_cache_class]
    reset_selection [of example_model example_cache_class]
  by (simp add: example_running_def example_model_def example_options_def exists_iff missing_iff truthy_iff)

text \<open>
  The claim as first stated, for every reset, fails: without a datasource and
  without a row-identity function, a selection of one node is still there after the
  reset.
\<close>
theorem reset_selection_counterexample:
  "missing (getRowNodeIdFunc (gridOptionsWrapper example_model))
   \<and> selectionController_selectedNodes example_model = [7]
   \<and> selectionController_selectedNodes (reset example_cache_class example_model) = [7]
   \<and> selectionController_selectedNodes (reset example_cache_class example_model) \<noteq> []"
  by (simp add: example_model_def example_options_def reset_def missing_iff)

subsection \<open>The settings are a snapshot\<close>

lemma step_options_irrelevant:
  assumes "\<not> resets a"
  shows "\<exists>t g'. step cls a (s\<lparr>gridOptionsWrapper := g\<rparr>) = Inr (t\<lparr>gridOptionsWrapper := g'\<rparr>)
                \<and> step cls a s = Inr t"
proof (cases a)
  case (SetDatasource d)
  with assms have "d = None" by (simp add: exists_iff missing_iff truthy_iff)
  with SetDatasource show ?thesis
    by (auto simp: setDatasource_def exists_iff missing_iff truthy_iff intro!: exI [of _ g])
next
  case (SetGridOptions h)
  then show ?thesis by (auto intro!: exI [of _ h])
next
  case (GetRow i)
  then show ?thesis
    by (auto simp: getRow_def split: option.splits prod.splits intro!: exI [of _ g])
next
  case ForEachNode
  then show ?thesis
    by (auto simp: forEachNode_def split: option.splits prod.splits intro!: exI [of _ g])
next
  case GetRowCombinedHeight
  then show ?thesis
    by (auto simp: getRowCombinedHeight_def split: option.splits prod.splits intro!: exI [of _ g])
next
  case (GetRowIndexAtPixel px)
  then show ?thesis
    by (auto simp: getRowIndexAtPixel_def split: option.splits prod.splits intro!: exI [of _ g])
next
  case GetRowCount
  then show ?thesis
    by (auto simp: getRowCount_def split: option.splits prod.splits intro!: exI [of _ g])
qed (use assms in \<open>auto simp: insertItemsAtIndex_def removeItems_def addItems_def emit_def
      intro!: exI [of _ g]\<close>)

lemma run_options_irrelevant:
  assumes "\<forall>a \<in> set as. \<not> resets a"
  shows "\<exists>t g'. run cls as (s\<lparr>gridOptionsWrapper := g\<rparr>) = Inr (t\<lparr>gridOptionsWrapper := g'\<rparr>)
                \<and> run cls as s = Inr t"
  using assms
proof (induction as arbitrary: s g)
  case Nil
  show ?case by (auto intro!: exI [of _ g])
next
  case (Cons a as)
  then have "\<not> resets a" and rest: "\<forall>b \<in> set as. \<not> resets b" by simp_all
  then obtain t g' where t: "step cls a (s\<lparr>gridOptionsWrapper := g\<rparr>) = Inr (t\<lparr>gridOptionsWrapper := g'\<rparr>)"
    "step cls a s = Inr t"
    using step_options_irrelevant [where a = a and cls = cls and s = s and g = g] by blast
  from Cons.IH [OF rest, where s = t and g = g'] t show ?case by simp
qed

text \<open>
  Claim C7. Changing the grid options does not reach a cache that exists: after
  any operations that cannot reset, the cache is the same object state whether or not
  the grid options were replaced beforehand. The new options take effect at the next
  reset with a datasource present: the cache it constructs gets its settings from the
  grid options of that moment (with the filter model and the sort model the filter
  manager and the sort controller hold then).
\<close>
theorem settings_are_a_snapshot:
  "((\<forall>a \<in> set as. \<not> resets a) \<longrightarrow>
      (\<exists>t1 t2. run cls as (s\<lparr>gridOptionsWrapper := g\<rparr>) = Inr t1 \<and> run cls as s = Inr t2
         \<and> this_virtualPageCache t1 = this_virtualPageCache t2))
   \<and> (this_datasource s = Some ds \<longrightarrow>
      this_virtualPageCache (reset cls (s\<lparr>gridOptionsWrapper := g\<rparr>)) =
        Some (wireBean cls (new_VirtualPageCache cls (set_defaults
          \<lparr> datasource = Some ds,
            filterModel = filterManager_getFilterModel s,
            sortModel = sortController_getSortModel s,
            maxConcurrentDatasourceRequests = getMaxConcurrentDatasourceRequests g,
            paginationOverflowSize = getPaginationOverflowSize g,
            paginationInitialRowCount = getPaginationInitialRowCount g,
            maxPagesInCache = getMaxPagesInCache g,
            pageSize = getPaginationPageSize g,
            rowHeight = getRowHeightAsNumber g,
            lastAccessedSequence = NewNumberSequence \<rparr>))))"
proof -
  have "\<exists>t1 t2. run cls as (s\<lparr>gridOptionsWrapper := g\<rparr>) = Inr t1 \<and> run cls as s = Inr t2
         \<and> this_virtualPageCache t1 = this_virtualPageCache t2"
    if "\<forall>a \<in> set as. \<not> resets a"
  proof -
    from run_options_irrelevant [OF that, where cls = cls and s = s and g = g] obtain t g'
      where "run cls as (s\<lparr>gridOptionsWrapper := g\<rparr>) = Inr (t\<lparr>gridOptionsWrapper := g'\<rparr>)"
        and "run cls as s = Inr t" by blast
    then show ?thesis by simp
  qed
  moreover have "this_virtualPageCache (reset cls (s\<lparr>gridOptionsWrapper := g\<rparr>)) =
        Some (wireBean cls (new_VirtualPageCache cls (cacheSettings (s\<lparr>gridOptionsWrapper := g\<rparr>))))"
    if "this_datasource s = Some ds"
    using that by (simp add: reset_cache)
  ultimately show ?thesis
    by (auto simp: cacheSettings_def cacheSettings_literal_def)
qed

theorem settings_are_a_snapshot_witness:
  "(\<exists>t1 t2.
      run example_cache_class [GetRow (Number 3), AddItems [4], SetDatasource None]
        (example_running\<lparr>gridOptionsWrapper := example_options\<lparr>getPaginationPageSize := Number 500\<rparr>\<rparr>) = Inr t1
      \<and> run example_cache_class [GetRow (Number 3), AddItems [4], SetDatasource None] example_running = Inr t2
      \<and> this_virtualPageCache t1 = this_virtualPageCache t2)
   \<and> map_option (\<lambda>c. pageSize (fst c))
       (this_virtualPageCache (reset example_cache_class
         (example_running\<lparr>gridOptionsWrapper := example_options\<lparr>getPaginationPageSize := Number 500\<rparr>\<rparr>)))
       = Some (Number 500)
   \<and> map_option (\<lambda>c. pageSize (fst c)) (this_virtualPageCache example_running) = Some (Number 100)"
proof -
  have a: "\<forall>a \<in> set [GetRow (Number 3), AddItems [4::nat], SetDatasource None]. \<not> resets a"
    by (simp add: exists_iff missing_iff truthy_iff)
  have d: "this_datasource example_running = Some example_datasource"
    by (simp add: example_running_def)
  have old: "map_option (\<lambda>c. pageSize (fst c)) (this_virtualPageCache example_running) = Some (Number 100)"
    by (simp add: example_running_def example_model_def example_options_def cacheSettings_def
        cacheSettings_literal_def set_defaults_fields)
  from settings_are_a_snapshot [where as = "[GetRow (Number 3), AddItems [4::nat], SetDatasource None]"
      and cls = example_cache_class and s = example_running and ds = example_datasource
      and g = "example_options\<lparr>getPaginationPageSize := Number 500\<rparr>"] a d old
  show ?thesis
    by (simp add: example_cache_class_def set_defaults_fields)
qed

subsection \<open>Filter and sort changes\<close>

text \<open>
  Claim C8. The filter-changed listener resets when server-side filtering is
  enabled and otherwise leaves the state as it is; the sort-changed listener does the
  same under server-side sorting. With a datasource present a reset always changes the
  state, so the state changes if and only if the mode is enabled.
\<close>
theorem events_reset_iff_server_side:
  "onFilterChanged cls s = (if isEnableServerSideFilter (gridOptionsWrapper s) then reset cls s else s)
   \<and> onSortChanged cls s = (if isEnableServerSideSorting (gridOptionsWrapper s) then reset cls s else s)
   \<and> (this_datasource s \<noteq> None \<longrightarrow>
        (onFilterChanged cls s \<noteq> s) = isEnableServerSideFilter (gridOptionsWrapper s)
        \<and> (onSortChanged cls s \<noteq> s) = isEnableServerSideSorting (gridOptionsWrapper s))"
  using reset_changes_state [of s _ cls]
  by (auto simp: onFilterChanged_def onSortChanged_def)

theorem events_reset_iff_server_side_witness:
  "onFilterChanged example_cache_class example_running \<noteq> example_running
   \<and> onSortChanged example_cache_class example_running = example_running"
proof -
  have "this_datasource example_running \<noteq> None"
    and "isEnableServerSideFilter (gridOptionsWrapper example_running)"
    and "\<not> isEnableServerSideSorting (gridOptionsWrapper example_running)"
    by (simp_all add: example_running_def example_options_def)
  with events_reset_iff_server_side [of example_cache_class example_running]
  show ?thesis by blast
qed

subsection \<open>Deprecated datasource fields\<close>

text \<open>
  Claim C9. Take a datasource and a second one that differs from it only in the
  four deprecated fields. \<open>setDatasource\<close> returns for both, each time the cache is
  constructed from the settings of the resulting state, and the two settings agree in
  every configuration field: they differ only in the \<open>datasource\<close> field, which
  holds the datasource that was passed in.
\<close>
theorem deprecated_fields_ignored:
  "\<exists>s1 s2.
     setDatasource cls (Some ds) s = Inr s1
     \<and> setDatasource cls
         (Some (ds\<lparr>ds_maxConcurrentRequests := a, ds_maxPagesInCache := b,
                   ds_overflowSize := c, ds_pageSize := d\<rparr>)) s = Inr s2
     \<and> this_virtualPageCache s1 = Some (wireBean cls (new_VirtualPageCache cls (cacheSettings s1)))
     \<and> this_virtualPageCache s2 = Some (wireBean cls (new_VirtualPageCache cls (cacheSettings s2)))
     \<and> cacheSettings s2 =
         (cacheSettings s1)\<lparr>datasource :=
           Some (ds\<lparr>ds_maxConcurrentRequests := a, ds_maxPagesInCache := b,
                     ds_overflowSize := c, ds_pageSize := d\<rparr>)\<rparr>
     \<and> datasource (cacheSettings s1) = Some ds
     \<and> maxConcurrentDatasourceRequests (cacheSettings s2) = maxConcurrentDatasourceRequests (cacheSettings s1)
     \<and> maxPagesInCache (cacheSettings s2) = maxPagesInCache (cacheSettings s1)
     \<and> paginationOverflowSize (cacheSettings s2) = paginationOverflowSize (cacheSettings s1)
     \<and> pageSize (cacheSettings s2) = pageSize (cacheSettings s1)
     \<and> paginationInitialRowCount (cacheSettings s2) = paginationInitialRowCount (cacheSettings s1)
     \<and> rowHeight (cacheSettings s2) = rowHeight (cacheSettings s1)
     \<and> filterModel (cacheSettings s2) = filterModel (cacheSettings s1)
     \<and> sortModel (cacheSettings s2) = sortModel (cacheSettings s1)"
proof -
  let ?ds' = "ds\<lparr>ds_maxConcurrentRequests := a, ds_maxPagesInCache := b,
                   ds_overflowSize := c, ds_pageSize := d\<rparr>"
  obtain s1 where s1: "setDatasource cls (Some ds) s = Inr s1"
    using setDatasource_total by blast
  obtain s2 where s2: "setDatasource cls (Some ?ds') s = Inr s2"
    using setDatasource_total by blast
  note f1 = setDatasource_fields [OF s1] and f2 = setDatasource_fields [OF s2]
  have c1: "cacheSettings s1 = cacheSettings (s\<lparr>this_datasource := Some ds\<rparr>)"
    by (rule cacheSettings_cong) (simp_all add: f1)
  have c2: "cacheSettings s2 = cacheSettings (s\<lparr>this_datasource := Some ?ds'\<rparr>)"
    by (rule cacheSettings_cong) (simp_all add: f2)
  have v1: "this_virtualPageCache s1 = Some (wireBean cls (new_VirtualPageCache cls (cacheSettings s1)))"
    using setDatasource_cache [OF s1] c1 by simp
  have v2: "this_virtualPageCache s2 = Some (wireBean cls (new_VirtualPageCache cls (cacheSettings s2)))"
    using setDatasource_cache [OF s2] c2 by simp
  have e: "cacheSettings s2 = (cacheSettings s1)\<lparr>datasource := Some ?ds'\<rparr>"
    unfolding c1 c2 by (simp add: cacheSettings_def cacheSettings_literal_def set_defaults_def Let_def)
  have d1: "datasource (cacheSettings s1) = Some ds"
    unfolding c1 by (simp add: cacheSettings_def cacheSettings_literal_def set_defaults_fields)
  from s1 s2 v1 v2 e d1 show ?thesis by simp
qed

theorem deprecated_fields_ignored_witness:
  "\<exists>s1 s2.
     setDatasource example_cache_class (Some example_datasource) example_model = Inr s1
     \<and> setDatasource example_cache_class
         (Some (example_datasource\<lparr>ds_maxConcurrentRequests := Number 4, ds_maxPagesInCache := Number 10,
                   ds_overflowSize := Number 3, ds_pageSize := Undefined\<rparr>)) example_model = Inr s2
     \<and> pageSize (cacheSettings s2) = pageSize (cacheSettings s1)
     \<and> maxConcurrentDatasourceRequests (cacheSettings s2) = maxConcurrentDatasourceRequests (cacheSettings s1)
     \<and> maxPagesInCache (cacheSettings s2) = maxPagesInCache (cacheSettings s1)
     \<and> paginationOverflowSize (cacheSettings s2) = paginationOverflowSize (cacheSettings s1)"
  using deprecated_fields_ignored [where cls = example_cache_class and ds = example_datasource
      and s = example_model and a = "Number 4" and b = "Number 10" and c = "Number 3"
      and d = Undefined]
  by blast

subsection \<open>The update methods\<close>

lemma trace_only_answers:
  "answers cls rowIndex pixel (s\<lparr>trace := t\<rparr>) = answers cls rowIndex pixel s"
  by (simp add: answers_def getRow_def getRowCount_def getRowCombinedHeight_def
      getRowIndexAtPixel_def forEachNode_def isEmpty_def isRowsToRender_def
      split: option.splits prod.splits)

text \<open>
  Claim C10. \<open>insertItemsAtIndex\<close>, \<open>removeItems\<close> and \<open>addItems\<close> add one
  line to the console and change nothing else: putting the old trace back gives the
  old state, the cache is the same, and every query answers as before.
\<close>
theorem updates_not_supported:
  "insertItemsAtIndex index items s = s\<lparr>trace := trace s @ [Console_log ''not yet supported'']\<rparr>
   \<and> removeItems rowNodes s = s\<lparr>trace := trace s @ [Console_log ''not yet supported'']\<rparr>
   \<and> addItems newItems s = s\<lparr>trace := trace s @ [Console_log ''not yet supported'']\<rparr>
   \<and> (insertItemsAtIndex index items s)\<lparr>trace := trace s\<rparr> = s
   \<and> (removeItems rowNodes s)\<lparr>trace := trace s\<rparr> = s
   \<and> (addItems newItems s)\<lparr>trace := trace s\<rparr> = s
   \<and> this_virtualPageCache (insertItemsAtIndex index items s) = this_virtualPageCache s
   \<and> this_virtualPageCache (removeItems rowNodes s) = this_virtualPageCache s
   \<and> this_virtualPageCache (addItems newItems s) = this_virtualPageCache s
   \<and> answers cls rowIndex pixel (insertItemsAtIndex index items s) = answers cls rowIndex pixel s
   \<and> answers cls rowIndex pixel (removeItems rowNodes s) = answers cls rowIndex pixel s
   \<and> answers cls rowIndex pixel (addItems newItems s) = answers cls rowIndex pixel s"
  by (simp add: insertItemsAtIndex_def removeItems_def addItems_def emit_def trace_only_answers)

theorem updates_not_supported_witness:
  "trace (insertItemsAtIndex (Number 0) [4] example_running) = [Console_log ''not yet supported'']
   \<and> this_virtualPageCache (removeItems [4] example_running) = this_virtualPageCache example_running
   \<and> answers example_cache_class (Number 0) (Number 10) (addItems [4] example_running) =
       answers example_cache_class (Number 0) (Number 10) example_running"
proof -
  note u = updates_not_supported [where index = "Number 0" and items = "[4]" and s = example_running
      and rowNodes = "[4]" and newItems = "[4]" and cls = example_cache_class
      and rowIndex = "Number 0" and pixel = "Number 10"]
  have t: "trace example_running = []" by (simp add: example_running_def)
  from u have "insertItemsAtIndex (Number 0) [4] example_running =
      example_running\<lparr>trace := trace example_running @ [Console_log ''not yet supported'']\<rparr>"
    by (rule conjunct1)
  then have a: "trace (insertItemsAtIndex (Number 0) [4] example_running) =
      [Console_log ''not yet supported'']"
    by (simp add: t)
  from u have b: "this_virtualPageCache (removeItems [4] example_running) =
      this_virtualPageCache example_running"
    by blast
  from u have c: "answers example_cache_class (Number 0) (Number 10) (addItems [4] example_running) =
      answers example_cache_class (Number 0) (Number 10) example_running"
    by blast
  from a b c show ?thesis by (intro conjI)
qed

end
